theory Spec2Isabelle
  imports Main
begin

section \<open>The schema operations of the Python catalog client\<close>

text \<open>
  A shallow embedding of \<^verbatim>\<open>gravitino/catalog/base_schema_catalog.py\<close>: the class
  \<^verbatim>\<open>BaseSchemaCatalog\<close> with its constructor, its five schema operations and its two
  static helpers. A Python exception is a value of \<open>exn\<close>; a method that may raise
  returns \<open>exn + 'a\<close> with \<open>Inl\<close> for the exception. The instance and the requests
  that have left through the REST client are threaded through every operation as an
  explicit state, so that "no request was sent" and "no field was written" are
  statements about the returned state.
\<close>

subsection \<open>Exceptions\<close>

text \<open>
  \<open>NameError\<close> and \<open>ValueError\<close> are the two built-in exceptions the module itself can
  raise. \<open>InvalidNamespace\<close> is what the namespace check raises and \<open>LevelOutOfRange\<close>
  what reading a level beyond the end of a namespace raises; both come from the
  namespace module. \<open>Raised\<close> stands for any other subclass of \<^verbatim>\<open>Exception\<close> that a
  collaborator raises, by class name and message.
\<close>

datatype exn =
    NameError string
  | ValueError string
  | InvalidNamespace string
  | LevelOutOfRange nat
  | Raised string string

subsection \<open>Data of the collaborating modules\<close>

datatype Namespace = Namespace (levels: "string list")

record NameIdentifier =
  ident_namespace :: Namespace
  ident_name :: string

record AuditDTO =
  creator :: "string option"
  create_time :: "string option"
  last_modifier :: "string option"
  last_modified_time :: "string option"

text \<open>A schema as the server returns it: name, comment, properties and audit.\<close>

record Schema =
  schema_name :: string
  schema_comment :: "string option"
  schema_properties :: "(string \<rightharpoonup> string) option"
  schema_audit :: "AuditDTO option"

text \<open>
  \<^verbatim>\<open>SchemaChange\<close>: the two variants the module dispatches on. Python lets a caller pass
  any other object; \<open>OtherChange\<close> is such an object, by the name of its class.
\<close>

datatype SchemaChange =
    SetProperty string string
  | RemoveProperty string
  | OtherChange string

datatype SchemaUpdateRequest =
    SetSchemaPropertyRequest string string
  | RemoveSchemaPropertyRequest string

datatype SchemaUpdatesRequest = SchemaUpdatesRequest (updates: "SchemaUpdateRequest list")

record SchemaCreateRequest =
  create_name :: string
  create_comment :: "string option"
  create_properties :: "(string \<rightharpoonup> string) option"

record EntityListResponse =
  identifiers :: "NameIdentifier list"

record SchemaResponse =
  schema :: Schema

record DropResponse =
  dropped :: bool

subsection \<open>The REST client\<close>

datatype http_verb = GET | POST | PUT | DELETE

datatype json_body = NoBody | CreateBody SchemaCreateRequest | UpdatesBody SchemaUpdatesRequest

record request =
  verb :: http_verb
  path :: string
  json :: json_body
  params :: "(string \<times> string) list"

record response =
  body :: string

text \<open>
  The transport handle: what the server answers to a request, or the exception the
  transport raises for it.
\<close>

type_synonym HTTPClient = "request \<Rightarrow> exn + response"

subsection \<open>The instance and the state\<close>

text \<open>
  The fields of a \<^verbatim>\<open>BaseSchemaCatalog\<close>: the six of \<^verbatim>\<open>CatalogDTO\<close> that the constructor
  hands to its superclass, and the three it sets itself. \<^verbatim>\<open>Catalog.Type\<close> is an
  enumeration of another module; its members are referred to by name.
\<close>

type_synonym Catalog_Type = string

record client =
  catalog_name :: "string option"
  catalog_type :: Catalog_Type
  catalog_provider :: "string option"
  catalog_comment :: "string option"
  catalog_properties :: "(string \<rightharpoonup> string) option"
  catalog_audit :: "AuditDTO option"
  namespace :: Namespace
  schema_namespace :: Namespace
  rest_client :: HTTPClient

text \<open>
  A value a name of the module can be bound to while \<^verbatim>\<open>drop_schema\<close> runs.
\<close>

datatype pyval =
    PyStr string
  | PyBool bool
  | PySelf
  | PyGlobal string
  | PyIdent NameIdentifier

text \<open>
  The state: the instance, the requests handed to the REST client so far (oldest
  first), and the warnings logged (format string and argument).
\<close>

record state =
  self :: client
  wire :: "request list"
  warnings :: "(string \<times> pyval) list"

subsection \<open>Collaborators outside the file\<close>

text \<open>
  The JSON codec and the validation methods of the request and response classes, and
  the identifier check, are defined in other modules. They are parameters of the model:
  a parser returns the parsed object or the exception it raises, a \<^verbatim>\<open>validate\<close> returns
  the exception it raises or \<open>None\<close>.
\<close>

record collaborators =
  entity_list_from_json :: "string \<Rightarrow> exn + EntityListResponse"
  entity_list_validate :: "EntityListResponse \<Rightarrow> exn option"
  schema_response_from_json :: "string \<Rightarrow> exn + SchemaResponse"
  schema_response_validate :: "SchemaResponse \<Rightarrow> exn option"
  drop_response_from_json :: "string \<Rightarrow> exn + DropResponse"
  drop_response_validate :: "DropResponse \<Rightarrow> exn option"
  create_request_validate :: "SchemaCreateRequest \<Rightarrow> exn option"
  updates_request_validate :: "SchemaUpdatesRequest \<Rightarrow> exn option"
  ident_check_schema :: "pyval \<Rightarrow> exn option"

text \<open>
  Modelled from the spec: \<^verbatim>\<open>Namespace.level\<close> is not in the file. A namespace is an
  ordered sequence of string levels; \<open>level ns pos\<close> is the level at that position,
  and a position beyond the end raises.
\<close>

definition level :: "Namespace \<Rightarrow> nat \<Rightarrow> exn + string" where
  "level ns pos =
     (if pos < length (levels ns) then Inr (levels ns ! pos) else Inl (LevelOutOfRange pos))"

text \<open>
  Modelled from the spec: \<^verbatim>\<open>Namespace.of\<close> is not in the file. It builds the namespace
  whose levels are its arguments, in order; levels are strings, so an argument that
  is \<^verbatim>\<open>None\<close> raises.
\<close>

definition Namespace_of :: "string option list \<Rightarrow> exn + Namespace" where
  "Namespace_of ls =
     (if None \<in> set ls then Inl (InvalidNamespace ''level is None'')
      else Inr (Namespace (map the ls)))"

text \<open>
  Modelled from the spec: \<^verbatim>\<open>Namespace.check_schema\<close> is not in the file. A schema
  namespace has exactly 2 levels (metalake, catalog); the check fails with
  \<open>InvalidNamespace\<close> otherwise.
\<close>

definition Namespace_check_schema :: "Namespace \<Rightarrow> exn option" where
  "Namespace_check_schema ns =
     (if length (levels ns) = 2 then None
      else Some (InvalidNamespace ''schema namespace must have 2 levels''))"

text \<open>
  Modelled from the spec: \<^verbatim>\<open>NameIdentifier.__str__\<close> is not in the file. The spec
  writes an identifier as the levels of its namespace and its leaf name joined by
  dots: \<^verbatim>\<open>m.c.s1\<close> is the schema \<^verbatim>\<open>s1\<close> of the catalog \<^verbatim>\<open>c\<close> of the metalake \<^verbatim>\<open>m\<close>.
\<close>

fun join_dots :: "string list \<Rightarrow> string" where
  "join_dots [] = []"
| "join_dots [x] = x"
| "join_dots (x # y # ys) = x @ ''.'' @ join_dots (y # ys)"

definition NameIdentifier_str :: "NameIdentifier \<Rightarrow> string" where
  "NameIdentifier_str i = join_dots (levels (ident_namespace i) @ [ident_name i])"

text \<open>Python's \<^verbatim>\<open>str\<close> of a \<^verbatim>\<open>bool\<close>.\<close>

definition str_bool :: "bool \<Rightarrow> string" where
  "str_bool b = (if b then ''True'' else ''False'')"

subsection \<open>The constructor\<close>

text \<open>
  \<^verbatim>\<open>__init__\<close>: the superclass stores the six catalog fields; then the namespace, the
  schema namespace \<^verbatim>\<open>Namespace.of(namespace.level(0), name)\<close> and the REST client are
  stored.
\<close>

definition init ::
  "Namespace \<Rightarrow> string option \<Rightarrow> Catalog_Type \<Rightarrow> string option \<Rightarrow> string option \<Rightarrow>
   (string \<rightharpoonup> string) option \<Rightarrow> AuditDTO option \<Rightarrow> HTTPClient \<Rightarrow> exn + client" where
  "init ns name ctype provider comment properties audit rc =
     (case level ns 0 of
        Inl e \<Rightarrow> Inl e
      | Inr l0 \<Rightarrow>
          (case Namespace_of [Some l0, name] of
             Inl e \<Rightarrow> Inl e
           | Inr sns \<Rightarrow>
               Inr \<lparr>catalog_name = name, catalog_type = ctype, catalog_provider = provider,
                    catalog_comment = comment, catalog_properties = properties,
                    catalog_audit = audit, namespace = ns, schema_namespace = sns,
                    rest_client = rc\<rparr>))"

subsection \<open>The static helpers\<close>

definition format_schema_request_path :: "Namespace \<Rightarrow> exn + string" where
  "format_schema_request_path ns =
     (case level ns 0 of
        Inl e \<Rightarrow> Inl e
      | Inr l0 \<Rightarrow>
          (case level ns 1 of
             Inl e \<Rightarrow> Inl e
           | Inr l1 \<Rightarrow> Inr (''api/metalakes/'' @ l0 @ ''/catalogs/'' @ l1 @ ''/schemas'')))"

fun to_schema_update_request :: "SchemaChange \<Rightarrow> exn + SchemaUpdateRequest" where
  "to_schema_update_request (SetProperty p v) = Inr (SetSchemaPropertyRequest p v)"
| "to_schema_update_request (RemoveProperty p) = Inr (RemoveSchemaPropertyRequest p)"
| "to_schema_update_request (OtherChange cls) = Inl (ValueError (''Unknown change type: '' @ cls))"

text \<open>
  The list comprehension of \<^verbatim>\<open>alter_schema\<close>: the changes are converted from left to
  right, and the first one that raises ends the comprehension.
\<close>

fun to_schema_update_requests :: "SchemaChange list \<Rightarrow> exn + SchemaUpdateRequest list" where
  "to_schema_update_requests [] = Inr []"
| "to_schema_update_requests (c # cs) =
     (case to_schema_update_request c of
        Inl e \<Rightarrow> Inl e
      | Inr r \<Rightarrow>
          (case to_schema_update_requests cs of
             Inl e \<Rightarrow> Inl e
           | Inr rs \<Rightarrow> Inr (r # rs)))"

subsection \<open>Sending a request\<close>

text \<open>
  A call of \<^verbatim>\<open>rest_client.get\<close>, \<^verbatim>\<open>post\<close>, \<^verbatim>\<open>put\<close> or \<^verbatim>\<open>delete\<close>: the request leaves
  (it is appended to the wire), and the transport answers or raises.
\<close>

definition send :: "request \<Rightarrow> state \<Rightarrow> (exn + response) \<times> state" where
  "send req s = (rest_client (self s) req, s\<lparr>wire := wire s @ [req]\<rparr>)"

text \<open>
  The three lines that end \<^verbatim>\<open>create_schema\<close>, \<^verbatim>\<open>load_schema\<close> and \<^verbatim>\<open>alter_schema\<close>:
  parse the body as a \<^verbatim>\<open>SchemaResponse\<close>, validate it, return its schema.
\<close>

definition read_schema_response :: "collaborators \<Rightarrow> response \<Rightarrow> exn + Schema" where
  "read_schema_response ext resp =
     (case schema_response_from_json ext (body resp) of
        Inl e \<Rightarrow> Inl e
      | Inr schema_response \<Rightarrow>
          (case schema_response_validate ext schema_response of
             Some e \<Rightarrow> Inl e
           | None \<Rightarrow> Inr (schema schema_response)))"

subsection \<open>The five operations\<close>

definition list_schemas :: "collaborators \<Rightarrow> state \<Rightarrow> (exn + string list) \<times> state" where
  "list_schemas ext s =
     (case Namespace_check_schema (schema_namespace (self s)) of
        Some e \<Rightarrow> (Inl e, s)
      | None \<Rightarrow>
          (case format_schema_request_path (schema_namespace (self s)) of
             Inl e \<Rightarrow> (Inl e, s)
           | Inr p \<Rightarrow>
               (case send \<lparr>verb = GET, path = p, json = NoBody, params = []\<rparr> s of
                  (Inl e, s') \<Rightarrow> (Inl e, s')
                | (Inr resp, s') \<Rightarrow>
                    (case entity_list_from_json ext (body resp) of
                       Inl e \<Rightarrow> (Inl e, s')
                     | Inr entity_list_response \<Rightarrow>
                         (case entity_list_validate ext entity_list_response of
                            Some e \<Rightarrow> (Inl e, s')
                          | None \<Rightarrow>
                              (Inr (map NameIdentifier_str (identifiers entity_list_response)),
                               s'))))))"

definition create_schema ::
  "collaborators \<Rightarrow> string \<Rightarrow> string option \<Rightarrow> (string \<rightharpoonup> string) option \<Rightarrow> state \<Rightarrow>
   (exn + Schema) \<times> state" where
  "create_schema ext name comment properties s =
     (let req = \<lparr>create_name = name, create_comment = comment,
                 create_properties = properties\<rparr>
      in case create_request_validate ext req of
           Some e \<Rightarrow> (Inl e, s)
         | None \<Rightarrow>
             (case format_schema_request_path (schema_namespace (self s)) of
                Inl e \<Rightarrow> (Inl e, s)
              | Inr p \<Rightarrow>
                  (case send \<lparr>verb = POST, path = p, json = CreateBody req, params = []\<rparr> s of
                     (Inl e, s') \<Rightarrow> (Inl e, s')
                   | (Inr resp, s') \<Rightarrow> (read_schema_response ext resp, s'))))"

definition load_schema :: "collaborators \<Rightarrow> string \<Rightarrow> state \<Rightarrow> (exn + Schema) \<times> state" where
  "load_schema ext name s =
     (case format_schema_request_path (schema_namespace (self s)) of
        Inl e \<Rightarrow> (Inl e, s)
      | Inr p \<Rightarrow>
          (case send \<lparr>verb = GET, path = p @ ''/'' @ name, json = NoBody, params = []\<rparr> s of
             (Inl e, s') \<Rightarrow> (Inl e, s')
           | (Inr resp, s') \<Rightarrow> (read_schema_response ext resp, s')))"

definition alter_schema ::
  "collaborators \<Rightarrow> string \<Rightarrow> SchemaChange list \<Rightarrow> state \<Rightarrow> (exn + Schema) \<times> state" where
  "alter_schema ext name changes s =
     (case to_schema_update_requests changes of
        Inl e \<Rightarrow> (Inl e, s)
      | Inr reqs \<Rightarrow>
          (let updates_request = SchemaUpdatesRequest reqs
           in case updates_request_validate ext updates_request of
                Some e \<Rightarrow> (Inl e, s)
              | None \<Rightarrow>
                  (case format_schema_request_path (schema_namespace (self s)) of
                     Inl e \<Rightarrow> (Inl e, s)
                   | Inr p \<Rightarrow>
                       (case send \<lparr>verb = PUT, path = p @ ''/'' @ name,
                                   json = UpdatesBody updates_request, params = []\<rparr> s of
                          (Inl e, s') \<Rightarrow> (Inl e, s')
                        | (Inr resp, s') \<Rightarrow> (read_schema_response ext resp, s')))))"

text \<open>
  The names bound while the body of \<^verbatim>\<open>drop_schema\<close> runs: its three parameters, and
  the globals of the module (its imports, \<^verbatim>\<open>logger\<close> and the class). The locals
  \<^verbatim>\<open>params\<close>, \<^verbatim>\<open>resp\<close> and \<^verbatim>\<open>drop_resp\<close> are assigned before they are read and looked
  up nowhere else. No statement of the module binds \<^verbatim>\<open>ident\<close>, and it is not a
  built-in name.
\<close>

definition module_globals :: "string list" where
  "module_globals =
     [''logging'', ''Dict'', ''List'', ''Catalog'', ''Schema'', ''SchemaChange'',
      ''SupportsSchemas'', ''AuditDTO'', ''CatalogDTO'', ''SchemaCreateRequest'',
      ''SchemaUpdateRequest'', ''SchemaUpdatesRequest'', ''DropResponse'',
      ''EntityListResponse'', ''SchemaResponse'', ''NameIdentifier'', ''Namespace'',
      ''HTTPClient'', ''logger'', ''BaseSchemaCatalog'']"

definition drop_schema_scope :: "string \<Rightarrow> bool \<Rightarrow> (string \<times> pyval) list" where
  "drop_schema_scope name cascade =
     [(''self'', PySelf), (''schema_name'', PyStr name), (''cascade'', PyBool cascade)]
     @ map (\<lambda>g. (g, PyGlobal g)) module_globals"

text \<open>Reading a name: its value, or \<^verbatim>\<open>NameError\<close> when nothing binds it.\<close>

definition read_name :: "(string \<times> pyval) list \<Rightarrow> string \<Rightarrow> exn + pyval" where
  "read_name scope n =
     (case map_of scope n of None \<Rightarrow> Inl (NameError n) | Some v \<Rightarrow> Inr v)"

text \<open>The body of the \<^verbatim>\<open>try\<close> statement of \<^verbatim>\<open>drop_schema\<close>.\<close>

definition drop_schema_try ::
  "collaborators \<Rightarrow> string \<Rightarrow> bool \<Rightarrow> state \<Rightarrow> (exn + bool) \<times> state" where
  "drop_schema_try ext name cascade s =
     (let ps = [(''cascade'', str_bool cascade)]
      in case format_schema_request_path (schema_namespace (self s)) of
           Inl e \<Rightarrow> (Inl e, s)
         | Inr p \<Rightarrow>
             (case send \<lparr>verb = DELETE, path = p @ ''/'' @ name, json = NoBody,
                         params = ps\<rparr> s of
                (Inl e, s') \<Rightarrow> (Inl e, s')
              | (Inr resp, s') \<Rightarrow>
                  (case drop_response_from_json ext (body resp) of
                     Inl e \<Rightarrow> (Inl e, s')
                   | Inr drop_resp \<Rightarrow>
                       (case drop_response_validate ext drop_resp of
                          Some e \<Rightarrow> (Inl e, s')
                        | None \<Rightarrow> (Inr (dropped drop_resp), s')))))"

text \<open>
  The handler \<^verbatim>\<open>except Exception\<close>: the argument \<^verbatim>\<open>ident\<close> of the warning is read,
  the warning is logged and \<^verbatim>\<open>False\<close> is returned.
\<close>

definition drop_schema_except ::
  "(string \<times> pyval) list \<Rightarrow> state \<Rightarrow> (exn + bool) \<times> state" where
  "drop_schema_except scope s =
     (case read_name scope ''ident'' of
        Inl e \<Rightarrow> (Inl e, s)
      | Inr ident \<Rightarrow>
          (Inr False, s\<lparr>warnings := warnings s @ [(''Failed to drop schema %s'', ident)]\<rparr>))"

text \<open>
  \<^verbatim>\<open>drop_schema\<close>: the argument \<^verbatim>\<open>ident\<close> of the identifier check is read and checked
  first, outside the \<^verbatim>\<open>try\<close>; then the \<^verbatim>\<open>try\<close> body runs, and the handler takes over
  when it raises.
\<close>

definition drop_schema ::
  "collaborators \<Rightarrow> string \<Rightarrow> bool \<Rightarrow> state \<Rightarrow> (exn + bool) \<times> state" where
  "drop_schema ext name cascade s =
     (let scope = drop_schema_scope name cascade
      in case read_name scope ''ident'' of
           Inl e \<Rightarrow> (Inl e, s)
         | Inr ident \<Rightarrow>
             (case ident_check_schema ext ident of
                Some e \<Rightarrow> (Inl e, s)
              | None \<Rightarrow>
                  (case drop_schema_try ext name cascade s of
                     (Inr b, s') \<Rightarrow> (Inr b, s')
                   | (Inl e, s') \<Rightarrow> drop_schema_except scope s')))"

subsection \<open>A sample catalog and server\<close>

text \<open>
  Concrete values on which the operations are run: a catalog \<open>c\<close> of the metalake
  \<open>m\<close>, a server that answers every request, a transport that cannot connect, and
  collaborators that parse every body as the same two identifiers or the same schema
  \<open>s1\<close> and accept everything.
\<close>

definition example_audit :: AuditDTO where
  "example_audit =
     \<lparr>creator = Some ''anonymous'', create_time = Some ''2024-04-05T10:10:35.218Z'',
      last_modifier = None, last_modified_time = None\<rparr>"

definition example_schema :: Schema where
  "example_schema =
     \<lparr>schema_name = ''s1'', schema_comment = Some ''c'',
      schema_properties = Some [''k'' \<mapsto> ''v''], schema_audit = Some example_audit\<rparr>"

definition example_identifiers :: "NameIdentifier list" where
  "example_identifiers =
     [\<lparr>ident_namespace = Namespace [''m'', ''c''], ident_name = ''s1''\<rparr>,
      \<lparr>ident_namespace = Namespace [''m'', ''c''], ident_name = ''s2''\<rparr>]"

definition example_collaborators :: collaborators where
  "example_collaborators =
     \<lparr>entity_list_from_json = (\<lambda>b. Inr \<lparr>identifiers = example_identifiers\<rparr>),
      entity_list_validate = (\<lambda>r. None),
      schema_response_from_json = (\<lambda>b. Inr \<lparr>schema = example_schema\<rparr>),
      schema_response_validate = (\<lambda>r. None),
      drop_response_from_json = (\<lambda>b. Inr \<lparr>dropped = True\<rparr>),
      drop_response_validate = (\<lambda>r. None),
      create_request_validate = (\<lambda>r. None),
      updates_request_validate = (\<lambda>r. None),
      ident_check_schema = (\<lambda>v. None)\<rparr>"


definition example_server :: HTTPClient where
  "example_server req = Inr \<lparr>body = ''{}''\<rparr>"

definition failing_server :: HTTPClient where
  "failing_server req = Inl (Raised ''ConnectionError'' ''connection refused'')"

definition example_client :: "Namespace \<Rightarrow> HTTPClient \<Rightarrow> client" where
  "example_client sns rc =
     \<lparr>catalog_name = Some ''c'', catalog_type = ''RELATIONAL'',
      catalog_provider = Some ''hive'', catalog_comment = None, catalog_properties = None,
      catalog_audit = None, namespace = Namespace [''m''], schema_namespace = sns,
      rest_client = rc\<rparr>"

definition example_state :: "Namespace \<Rightarrow> HTTPClient \<Rightarrow> state" where
  "example_state sns rc = \<lparr>self = example_client sns rc, wire = [], warnings = []\<rparr>"

section \<open>Properties\<close>

subsection \<open>Shared facts\<close>

lemma read_name_ident:
  "read_name (drop_schema_scope name cascade) ''ident'' = Inl (NameError ''ident'')"
  by (simp add: read_name_def drop_schema_scope_def module_globals_def)

lemma drop_schema_NameError:
  "drop_schema ext name cascade s = (Inl (NameError ''ident''), s)"
  by (simp add: drop_schema_def read_name_ident)

lemma format_schema_request_path_pair:
  "format_schema_request_path (Namespace [l0, l1]) =
     Inr (''api/metalakes/'' @ l0 @ ''/catalogs/'' @ l1 @ ''/schemas'')"
  by (simp add: format_schema_request_path_def level_def)

lemma init_schema_namespace:
  "init ns cname ctype provider comment properties audit rc = Inr c \<Longrightarrow>
   \<exists>l0 l1. schema_namespace c = Namespace [l0, l1] \<and> rest_client c = rc \<and> namespace c = ns"
  by (auto simp add: init_def Namespace_of_def split: sum.splits if_splits)

lemma init_example:
  "init (Namespace [''m'']) (Some ''c'') ''RELATIONAL'' (Some ''hive'') None None None rc
     = Inr (example_client (Namespace [''m'', ''c'']) rc)"
  by (simp add: init_def level_def Namespace_of_def example_client_def)

subsection \<open>Dropping a schema\<close>

text \<open>
  C1. The claim: every failure during \<^verbatim>\<open>drop_schema\<close> (transport, response validation,
  a non-empty schema reported by the server) is caught and turned into the result
  \<^verbatim>\<open>False\<close>. The code: the first statement reads the unbound name \<^verbatim>\<open>ident\<close>, outside
  the \<^verbatim>\<open>try\<close>, so every call raises \<^verbatim>\<open>NameError\<close>, whatever the transport and the
  server would do; nothing is sent and nothing is logged.
\<close>

theorem drop_schema_raises_NameError:
  "fst (drop_schema ext name cascade s) = Inl (NameError ''ident'')
   \<and> wire (snd (drop_schema ext name cascade s)) = wire s
   \<and> warnings (snd (drop_schema ext name cascade s)) = warnings s"
  by (simp add: drop_schema_def read_name_ident)

text \<open>
  C3. The claim: \<^verbatim>\<open>drop_schema\<close> runs the schema-identifier check before any request,
  and an identifier that fails it gives the error of the check. The code: the check
  is never reached, since its argument \<^verbatim>\<open>ident\<close> is unbound; with a check that rejects
  every identifier with \<open>e\<close>, the call still raises \<^verbatim>\<open>NameError\<close>.
\<close>

theorem drop_schema_check_not_reached:
  "drop_schema (ext\<lparr>ident_check_schema := (\<lambda>v. Some e)\<rparr>) name cascade s
     = (Inl (NameError ''ident''), s)"
  by (simp add: drop_schema_def read_name_ident)

subsection \<open>Listing schemas\<close>

text \<open>
  C5. When the schema namespace of the instance does not have exactly 2 levels,
  \<^verbatim>\<open>list_schemas\<close> fails with \<open>InvalidNamespace\<close> and the state is the one it started
  from: no request has left.
\<close>

theorem list_schemas_invalid_namespace:
  assumes "length (levels (schema_namespace (self s))) \<noteq> 2"
  shows "list_schemas ext s =
           (Inl (InvalidNamespace ''schema namespace must have 2 levels''), s)"
  using assms by (simp add: list_schemas_def Namespace_check_schema_def)

theorem list_schemas_invalid_namespace_witness:
  "length (levels (schema_namespace
       (self (example_state (Namespace [''m'', ''c'', ''x'']) example_server)))) \<noteq> 2
   \<and> fst (list_schemas example_collaborators
            (example_state (Namespace [''m'', ''c'', ''x'']) example_server))
       = Inl (InvalidNamespace ''schema namespace must have 2 levels'')
   \<and> wire (snd (list_schemas example_collaborators
                  (example_state (Namespace [''m'', ''c'', ''x'']) example_server))) = []"
proof -
  have h: "length (levels (schema_namespace
             (self (example_state (Namespace [''m'', ''c'', ''x'']) example_server)))) \<noteq> 2"
    by (simp add: example_state_def example_client_def)
  show ?thesis
    using h list_schemas_invalid_namespace [OF h, of example_collaborators]
    by (simp add: example_state_def)
qed

lemma list_schemas_result:
  assumes "length (levels (schema_namespace (self s))) = 2"
    and "format_schema_request_path (schema_namespace (self s)) = Inr p"
    and "rest_client (self s) \<lparr>verb = GET, path = p, json = NoBody, params = []\<rparr> = Inr resp"
    and "entity_list_from_json ext (body resp) = Inr r"
    and "entity_list_validate ext r = None"
  shows "fst (list_schemas ext s) = Inr (map NameIdentifier_str (identifiers r))"
  using assms
  by (simp add: list_schemas_def Namespace_check_schema_def send_def)

text \<open>
  C2. The claim: \<^verbatim>\<open>list_schemas\<close> returns the leaf name of each identifier of the
  response, in the order of the response: \<^verbatim>\<open>s1\<close>, \<^verbatim>\<open>s2\<close> for the identifiers
  \<^verbatim>\<open>m.c.s1\<close>, \<^verbatim>\<open>m.c.s2\<close>. The code: the result is \<^verbatim>\<open>str(identifier)\<close> of each
  identifier, in that order, which is the whole dotted identifier and not its name;
  for those two identifiers \<^verbatim>\<open>list_schemas\<close> returns \<^verbatim>\<open>m.c.s1\<close>, \<^verbatim>\<open>m.c.s2\<close>.
\<close>

theorem list_schemas_returns_qualified_names:
  "fst (list_schemas example_collaborators
          (example_state (Namespace [''m'', ''c'']) example_server))
     = Inr [''m.c.s1'', ''m.c.s2'']"
proof -
  let ?s = "example_state (Namespace [''m'', ''c'']) example_server"
  let ?p = "''api/metalakes/m/catalogs/c/schemas''"
  have h1: "length (levels (schema_namespace (self ?s))) = 2"
    by (simp add: example_state_def example_client_def)
  have h2: "format_schema_request_path (schema_namespace (self ?s)) = Inr ?p"
    by (simp add: example_state_def example_client_def format_schema_request_path_pair)
  have h3: "rest_client (self ?s) \<lparr>verb = GET, path = ?p, json = NoBody, params = []\<rparr>
              = Inr \<lparr>body = ''{}''\<rparr>"
    by (simp add: example_state_def example_client_def example_server_def)
  have h4: "entity_list_from_json example_collaborators (body \<lparr>body = ''{}''\<rparr>)
              = Inr \<lparr>identifiers = example_identifiers\<rparr>"
    by (simp add: example_collaborators_def)
  have h5: "entity_list_validate example_collaborators \<lparr>identifiers = example_identifiers\<rparr>
              = None"
    by (simp add: example_collaborators_def)
  show ?thesis
    using list_schemas_result [OF h1 h2 h3 h4 h5]
    by (simp add: example_identifiers_def NameIdentifier_str_def)
qed

subsection \<open>Changes and update requests\<close>








subsection \<open>Request paths\<close>

lemma load_alter_request_paths:
  assumes "schema_namespace (self s) = Namespace [l0, l1]"
    and "to_schema_update_requests changes = Inr reqs"
    and "updates_request_validate ext (SchemaUpdatesRequest reqs) = None"
  shows "wire (snd (load_schema ext name s)) =
           wire s @ [\<lparr>verb = GET,
                      path = (''api/metalakes/'' @ l0 @ ''/catalogs/'' @ l1 @ ''/schemas'')
                             @ ''/'' @ name,
                      json = NoBody, params = []\<rparr>]"
    and "wire (snd (alter_schema ext name changes s)) =
           wire s @ [\<lparr>verb = PUT,
                      path = (''api/metalakes/'' @ l0 @ ''/catalogs/'' @ l1 @ ''/schemas'')
                             @ ''/'' @ name,
                      json = UpdatesBody (SchemaUpdatesRequest reqs), params = []\<rparr>]"
  using assms
  by (simp_all add: load_schema_def alter_schema_def format_schema_request_path_pair send_def
      Let_def split: sum.splits)

text \<open>
  C6. The claim: \<^verbatim>\<open>format_schema_request_path\<close> returns
  \<open>api/metalakes/l0/catalogs/l1/schemas\<close> for the two levels \<open>l0\<close>, \<open>l1\<close>, and load,
  alter and drop use that path followed by \<open>/\<close> and the schema name. The code, on the
  catalog \<open>c\<close> of the metalake \<open>m\<close> and the schema \<open>s1\<close>: the base path is as claimed,
  \<^verbatim>\<open>load_schema\<close> sends its GET and \<^verbatim>\<open>alter_schema\<close> its PUT to
  \<open>api/metalakes/m/catalogs/c/schemas/s1\<close>, and \<^verbatim>\<open>drop_schema\<close> sends no request to
  any path: it raises before its DELETE statement is reached.
\<close>

theorem drop_schema_sends_no_request:
  "format_schema_request_path (Namespace [''m'', ''c''])
     = Inr ''api/metalakes/m/catalogs/c/schemas''
   \<and> wire (snd (load_schema example_collaborators ''s1''
                  (example_state (Namespace [''m'', ''c'']) example_server)))
       = [\<lparr>verb = GET, path = ''api/metalakes/m/catalogs/c/schemas/s1'', json = NoBody,
            params = []\<rparr>]
   \<and> wire (snd (alter_schema example_collaborators ''s1'' [RemoveProperty ''k'']
                  (example_state (Namespace [''m'', ''c'']) example_server)))
       = [\<lparr>verb = PUT, path = ''api/metalakes/m/catalogs/c/schemas/s1'',
            json = UpdatesBody (SchemaUpdatesRequest [RemoveSchemaPropertyRequest ''k'']),
            params = []\<rparr>]
   \<and> wire (snd (drop_schema example_collaborators ''s1'' False
                  (example_state (Namespace [''m'', ''c'']) example_server))) = []"
proof -
  let ?s = "example_state (Namespace [''m'', ''c'']) example_server"
  have h1: "schema_namespace (self ?s) = Namespace [''m'', ''c'']"
    by (simp add: example_state_def example_client_def)
  have h2: "to_schema_update_requests [RemoveProperty ''k'']
              = Inr [RemoveSchemaPropertyRequest ''k'']"
    by simp
  have h3: "updates_request_validate example_collaborators
              (SchemaUpdatesRequest [RemoveSchemaPropertyRequest ''k'']) = None"
    by (simp add: example_collaborators_def)
  have w: "wire ?s = []"
    by (simp add: example_state_def)
  show ?thesis
    using load_alter_request_paths [OF h1 h2 h3, of "''s1''"] w
    by (simp add: format_schema_request_path_pair drop_schema_NameError)
qed

subsection \<open>Creating and loading a schema\<close>

text \<open>
  C8. When the create request passes its validation, the server answers the POST and
  the body parses to a valid schema response, \<^verbatim>\<open>create_schema\<close> returns the schema of
  that response: name, comment, properties and audit are those of the payload.
\<close>

theorem create_schema_round_trip:
  assumes "create_request_validate ext
             \<lparr>create_name = name, create_comment = comment, create_properties = properties\<rparr> = None"
    and "format_schema_request_path (schema_namespace (self s)) = Inr p"
    and "rest_client (self s)
           \<lparr>verb = POST, path = p,
            json = CreateBody \<lparr>create_name = name, create_comment = comment,
                               create_properties = properties\<rparr>,
            params = []\<rparr> = Inr resp"
    and "schema_response_from_json ext (body resp) = Inr r"
    and "schema_response_validate ext r = None"
  shows "fst (create_schema ext name comment properties s) = Inr (schema r)"
  using assms
  by (simp add: create_schema_def send_def read_schema_response_def Let_def)

theorem create_schema_round_trip_witness:
  "fst (create_schema example_collaborators ''s1'' (Some ''c'') (Some [''k'' \<mapsto> ''v''])
          (example_state (Namespace [''m'', ''c'']) example_server))
     = Inr \<lparr>schema_name = ''s1'', schema_comment = Some ''c'',
            schema_properties = Some [''k'' \<mapsto> ''v''], schema_audit = Some example_audit\<rparr>"
proof -
  let ?s = "example_state (Namespace [''m'', ''c'']) example_server"
  let ?req = "\<lparr>create_name = ''s1'', create_comment = Some ''c'',
                create_properties = Some [''k'' \<mapsto> ''v'']\<rparr>"
  have h1: "create_request_validate example_collaborators ?req = None"
    by (simp add: example_collaborators_def)
  have h2: "format_schema_request_path (schema_namespace (self ?s))
              = Inr ''api/metalakes/m/catalogs/c/schemas''"
    by (simp add: example_state_def example_client_def format_schema_request_path_pair)
  have h3: "rest_client (self ?s)
              \<lparr>verb = POST, path = ''api/metalakes/m/catalogs/c/schemas'',
               json = CreateBody ?req, params = []\<rparr> = Inr \<lparr>body = ''{}''\<rparr>"
    by (simp add: example_state_def example_client_def example_server_def)
  have h4: "schema_response_from_json example_collaborators (body \<lparr>body = ''{}''\<rparr>)
              = Inr \<lparr>schema = example_schema\<rparr>"
    by (simp add: example_collaborators_def)
  have h5: "schema_response_validate example_collaborators \<lparr>schema = example_schema\<rparr> = None"
    by (simp add: example_collaborators_def)
  show ?thesis
    using create_schema_round_trip [OF h1 h2 h3 h4 h5]
    by (simp add: example_schema_def)
qed

text \<open>
  C10. As amended: \<^verbatim>\<open>load_schema\<close> runs no check of the namespace or of the
  identifier. For every schema name, the empty one included, and every schema
  namespace of at least two levels (also one of three or more, which the namespace
  check rejects), it sends its GET, and its result is the exception of the transport,
  or what parsing and validating the response give. On a schema namespace of fewer
  than two levels, building the path fails at the missing level and no request is
  sent.
\<close>

theorem load_schema_no_local_check:
  "(2 \<le> length (levels (schema_namespace (self s))) \<longrightarrow>
      (\<exists>p. format_schema_request_path (schema_namespace (self s)) = Inr p
         \<and> wire (snd (load_schema ext name s)) =
             wire s @ [\<lparr>verb = GET, path = p @ ''/'' @ name, json = NoBody, params = []\<rparr>]
         \<and> fst (load_schema ext name s) =
             (case rest_client (self s)
                     \<lparr>verb = GET, path = p @ ''/'' @ name, json = NoBody, params = []\<rparr> of
                Inl e \<Rightarrow> Inl e
              | Inr resp \<Rightarrow> read_schema_response ext resp)))
   \<and> (length (levels (schema_namespace (self s'))) < 2 \<longrightarrow>
        load_schema ext' name' s' =
          (Inl (LevelOutOfRange (length (levels (schema_namespace (self s'))))), s'))"
proof (intro conjI impI)
  assume two: "2 \<le> length (levels (schema_namespace (self s)))"
  let ?ns = "schema_namespace (self s)"
  let ?p = "''api/metalakes/'' @ levels ?ns ! 0 @ ''/catalogs/'' @ levels ?ns ! 1 @ ''/schemas''"
  have p: "format_schema_request_path ?ns = Inr ?p"
    using two by (auto simp add: format_schema_request_path_def level_def)
  have "wire (snd (load_schema ext name s)) =
          wire s @ [\<lparr>verb = GET, path = ?p @ ''/'' @ name, json = NoBody, params = []\<rparr>]"
    using p by (simp add: load_schema_def send_def split: sum.splits)
  moreover have "fst (load_schema ext name s) =
          (case rest_client (self s)
                  \<lparr>verb = GET, path = ?p @ ''/'' @ name, json = NoBody, params = []\<rparr> of
             Inl e \<Rightarrow> Inl e
           | Inr resp \<Rightarrow> read_schema_response ext resp)"
    using p by (simp add: load_schema_def send_def split: sum.splits)
  ultimately show "\<exists>p. format_schema_request_path ?ns = Inr p
         \<and> wire (snd (load_schema ext name s)) =
             wire s @ [\<lparr>verb = GET, path = p @ ''/'' @ name, json = NoBody, params = []\<rparr>]
         \<and> fst (load_schema ext name s) =
             (case rest_client (self s)
                     \<lparr>verb = GET, path = p @ ''/'' @ name, json = NoBody, params = []\<rparr> of
                Inl e \<Rightarrow> Inl e
              | Inr resp \<Rightarrow> read_schema_response ext resp)"
    using p by blast
next
  assume short: "length (levels (schema_namespace (self s'))) < 2"
  then have "length (levels (schema_namespace (self s'))) = 0
             \<or> length (levels (schema_namespace (self s'))) = 1"
    by arith
  then show "load_schema ext' name' s' =
          (Inl (LevelOutOfRange (length (levels (schema_namespace (self s'))))), s')"
    by (auto simp add: load_schema_def format_schema_request_path_def level_def)
qed

theorem load_schema_no_local_check_witness:
  "wire (snd (load_schema example_collaborators ''''
                (example_state (Namespace [''m'', ''c'', ''x'']) failing_server)))
     = [\<lparr>verb = GET, path = ''api/metalakes/m/catalogs/c/schemas/'', json = NoBody,
          params = []\<rparr>]
   \<and> fst (load_schema example_collaborators ''''
            (example_state (Namespace [''m'', ''c'', ''x'']) failing_server))
       = Inl (Raised ''ConnectionError'' ''connection refused'')
   \<and> load_schema example_collaborators ''s1'' (example_state (Namespace [''m'']) example_server)
       = (Inl (LevelOutOfRange 1), example_state (Namespace [''m'']) example_server)"
proof -
  let ?s = "example_state (Namespace [''m'', ''c'', ''x'']) failing_server"
  let ?t = "example_state (Namespace [''m'']) example_server"
  have h1: "2 \<le> length (levels (schema_namespace (self ?s)))"
    by (simp add: example_state_def example_client_def)
  have h2: "length (levels (schema_namespace (self ?t))) < 2"
    by (simp add: example_state_def example_client_def)
  have p: "format_schema_request_path (schema_namespace (self ?s))
             = Inr ''api/metalakes/m/catalogs/c/schemas''"
    by (simp add: example_state_def example_client_def format_schema_request_path_def
        level_def)
  have n: "length (levels (schema_namespace (self ?t))) = 1"
    by (simp add: example_state_def example_client_def)
  have r: "rest_client (self ?s) = failing_server" and w: "wire ?s = []"
    by (simp_all add: example_state_def example_client_def)
  show ?thesis
    using h1 h2 p n r w
      load_schema_no_local_check
        [of ?s example_collaborators "''''" ?t example_collaborators "''s1''"]
    by (auto simp add: failing_server_def)
qed

text \<open>
  The claim as it stands, that the GET is sent for every namespace and that every
  failure comes from the transport or from the response, fails on a schema namespace
  of one level: \<^verbatim>\<open>load_schema\<close> raises while it builds the path, and nothing is sent.
\<close>

theorem load_schema_no_local_check_counterexample:
  "load_schema example_collaborators ''s1'' (example_state (Namespace [''m'']) example_server)
     = (Inl (LevelOutOfRange 1), example_state (Namespace [''m'']) example_server)
   \<and> wire (snd (load_schema example_collaborators ''s1''
                  (example_state (Namespace [''m'']) example_server))) = []"
  by (simp add: load_schema_def format_schema_request_path_def level_def example_state_def
      example_client_def)

subsection \<open>The instance is never written\<close>

text \<open>
  C9. After each of the five operations the instance in the state is the one the
  operation started with: its namespace, its schema namespace, its REST client handle
  and its catalog fields are unchanged, for every input and every server.
\<close>

theorem operations_keep_instance:
  "self (snd (list_schemas ext s)) = self s
   \<and> self (snd (create_schema ext name comment properties s)) = self s
   \<and> self (snd (load_schema ext name s)) = self s
   \<and> self (snd (alter_schema ext name changes s)) = self s
   \<and> self (snd (drop_schema ext name cascade s)) = self s"
  by (simp add: list_schemas_def create_schema_def load_schema_def alter_schema_def
      drop_schema_NameError send_def Let_def split: sum.splits option.splits prod.splits)

end
